theory Spec2Isabelle
  imports Complex_Main
begin

section \<open>Data model of the forecaster (prediction_model.py)\<close>

text \<open>
  The forecaster works on a pandas frame of transactions. A row carries the columns
  \<^verbatim>\<open>date\<close>, \<^verbatim>\<open>Category\<close> and \<^verbatim>\<open>Transaction Amount\<close>, and possibly the derived
  column \<^verbatim>\<open>days_since_start\<close>; \<open>None\<close> in that field stands for a frame that does not
  have the column yet. The date column holds calendar dates, written as day numbers, so
  that the \<^verbatim>\<open>.dt.days\<close> of a difference of two dates is their integer difference and
  \<^verbatim>\<open>timedelta(days=1)\<close> adds one. Amounts are floating-point numbers in the program and
  exact reals here.
\<close>

datatype error = ValueError | KeyError

record row =
  date :: int
  category :: string
  amount :: real
  days_since_start :: "int option"

type_synonym frame = "row list"

text \<open>The frame returned by \<^verbatim>\<open>make_predictions\<close>: one row per projected date.\<close>

record forecast =
  f_date :: int
  f_days_since_start :: int
  prediction :: real

text \<open>A fitted \<^verbatim>\<open>LinearRegression\<close> with one feature.\<close>

record linreg =
  coef :: real
  intercept :: real

section \<open>Column minimum and maximum\<close>

text \<open>
  \<^verbatim>\<open>df['date'].min()\<close> and \<^verbatim>\<open>df['date'].max()\<close>; on a frame without rows pandas
  returns \<^verbatim>\<open>NaT\<close>, which is \<open>None\<close> here.
\<close>

definition date_min :: "frame \<Rightarrow> int option" where
  "date_min df =
     (case df of [] \<Rightarrow> None
      | r # rs \<Rightarrow> Some (fold (\<lambda>s m. min (date s) m) rs (date r)))"

definition date_max :: "frame \<Rightarrow> int option" where
  "date_max df =
     (case df of [] \<Rightarrow> None
      | r # rs \<Rightarrow> Some (fold (\<lambda>s m. max (date s) m) rs (date r)))"

section \<open>prepare_data\<close>

text \<open>
  \<^verbatim>\<open>prepare_data\<close> assigns two columns of the frame it is given and returns that same
  frame: the result below is both the returned value and the new content of the
  caller's object. \<^verbatim>\<open>pd.to_datetime\<close> leaves a date column that is already parsed as
  it is (main.py parses it when loading).
\<close>

definition prepare_data :: "frame \<Rightarrow> frame" where
  "prepare_data df =
     (case date_min df of None \<Rightarrow> df
      | Some start \<Rightarrow> map (\<lambda>r. r\<lparr>days_since_start := Some (date r - start)\<rparr>) df)"

section \<open>The library calls of train_model\<close>

text \<open>
  \<^verbatim>\<open>train_test_split(X, y, test_size=0.2, random_state=42)\<close> of scikit-learn: the test
  set gets \<open>ceil(test_size * n)\<close> samples, the training set the other ones, and an empty
  training set is a \<^verbatim>\<open>ValueError\<close>. The indices are a permutation drawn from a generator
  that is seeded with \<open>random_state\<close> at every call; the generator is the parameter
  \<open>rng\<close>, from the seed and the number of samples to the permutation. Its first
  \<open>n_test\<close> indices are the test set and the next \<open>n_train\<close> the training set.
  (The double nearest to 0.2 is not one fifth, but the rounded product has the same
  ceiling as \<open>n / 5\<close> for every \<open>n\<close> below \<open>2 ^ 50\<close>.)
\<close>

definition train_test_split ::
  "(nat \<Rightarrow> nat \<Rightarrow> nat list) \<Rightarrow> 'a list \<Rightarrow> 'b list \<Rightarrow> real \<Rightarrow> nat
     \<Rightarrow> error + ('a list \<times> 'a list \<times> 'b list \<times> 'b list)" where
  "train_test_split rng X y test_size random_state =
     (let n_samples = length X;
          n_test = nat \<lceil>test_size * of_nat n_samples\<rceil>;
          n_train = n_samples - n_test
      in if n_train = 0 then Inl ValueError
         else
           let permutation = rng random_state n_samples;
               ind_test = take n_test permutation;
               ind_train = take n_train (drop n_test permutation)
           in Inr (map (nth X) ind_train, map (nth X) ind_test,
                   map (nth y) ind_train, map (nth y) ind_test))"

text \<open>
  \<^verbatim>\<open>LinearRegression().fit(X, y)\<close> with one feature: ordinary least squares with an
  intercept. The library centres both columns and takes the least-squares solution of
  least norm, which is slope 0 when the feature has no variance. The library computes in
  binary64; \<open>fit\<close> and \<open>predict\<close> are the same formulas over exact reals, which the
  program's values agree with up to rounding only.
\<close>

definition mean :: "real list \<Rightarrow> real" where
  "mean xs = sum_list xs / real (length xs)"

definition fit :: "int list \<Rightarrow> real list \<Rightarrow> linreg" where
  "fit X y =
     (let xs = map real_of_int X;
          x_mean = mean xs;
          y_mean = mean y;
          sxx = sum_list (map (\<lambda>x. (x - x_mean) * (x - x_mean)) xs);
          sxy = sum_list (map (\<lambda>(x, v). (x - x_mean) * (v - y_mean)) (zip xs y));
          a = (if sxx = 0 then 0 else sxy / sxx)
      in \<lparr>coef = a, intercept = y_mean - a * x_mean\<rparr>)"

definition predict :: "linreg \<Rightarrow> int list \<Rightarrow> real list" where
  "predict model X = map (\<lambda>x. coef model * real_of_int x + intercept model) X"

section \<open>train_model\<close>

text \<open>
  The feature is the column \<^verbatim>\<open>days_since_start\<close> (a \<^verbatim>\<open>KeyError\<close> when the frame does
  not have it), the target the column named by the caller. The model is fitted on the
  training part of the split; the test part is not used.
\<close>

definition train_model ::
  "(nat \<Rightarrow> nat \<Rightarrow> nat list) \<Rightarrow> frame \<Rightarrow> (row \<Rightarrow> real) \<Rightarrow> error + linreg" where
  "train_model rng df target =
     (case those (map days_since_start df) of
        None \<Rightarrow> Inl KeyError
      | Some X \<Rightarrow>
          (case train_test_split rng X (map target df) (1 / 5) 42 of
             Inl e \<Rightarrow> Inl e
           | Inr (X_train, X_test, y_train, y_test) \<Rightarrow> Inr (fit X_train y_train)))"

section \<open>make_predictions\<close>

text \<open>
  \<^verbatim>\<open>pd.date_range(start=..., periods=...)\<close> with the default daily frequency.
\<close>

definition date_range :: "int \<Rightarrow> nat \<Rightarrow> int list" where
  "date_range start periods = map (\<lambda>k. start + int k) [0..<periods]"

text \<open>
  Both the last date and the first date are read from the frame \<open>df\<close> that the caller
  passes. A start that is \<^verbatim>\<open>NaT\<close> makes \<^verbatim>\<open>date_range\<close> raise.
\<close>

definition make_predictions :: "linreg \<Rightarrow> frame \<Rightarrow> nat \<Rightarrow> error + forecast list" where
  "make_predictions model df days_to_predict =
     (case date_max df of
        None \<Rightarrow> Inl ValueError
      | Some last_date \<Rightarrow>
          (case date_min df of
             None \<Rightarrow> Inl ValueError
           | Some first_date \<Rightarrow>
               let future_dates = date_range (last_date + 1) days_to_predict;
                   future_days = map (\<lambda>d. d - first_date) future_dates;
                   predictions = predict model future_days
               in Inr (map (\<lambda>(d, x, p). \<lparr>f_date = d, f_days_since_start = x, prediction = p\<rparr>)
                         (zip future_dates (zip future_days predictions)))))"

section \<open>predict_future_transactions\<close>

text \<open>
  The two boolean selections of the prepared frame (each a new frame), the second one
  with the amounts replaced by their absolute values.
\<close>

definition income_df :: "frame \<Rightarrow> frame" where
  "income_df df = filter (\<lambda>r. amount r > 0) df"

definition expenditure_df :: "frame \<Rightarrow> frame" where
  "expenditure_df df = map (\<lambda>r. r\<lparr>amount := \<bar>amount r\<bar>\<rparr>) (filter (\<lambda>r. amount r < 0) df)"

text \<open>
  The result is the pair of what the call returns (or the exception that leaves it) and
  the content of the caller's frame after the call. Both models are trained before
  either projection is made, and the first exception ends the call.
\<close>

definition predict_future_transactions ::
  "(nat \<Rightarrow> nat \<Rightarrow> nat list) \<Rightarrow> frame \<Rightarrow> (error + forecast list \<times> forecast list) \<times> frame" where
  "predict_future_transactions rng df0 =
     (let df = prepare_data df0;
          inc = income_df df;
          expd = expenditure_df df
      in (case train_model rng inc amount of
            Inl e \<Rightarrow> Inl e
          | Inr income_model \<Rightarrow>
              (case train_model rng expd amount of
                 Inl e \<Rightarrow> Inl e
               | Inr expenditure_model \<Rightarrow>
                   (case make_predictions income_model inc 30 of
                      Inl e \<Rightarrow> Inl e
                    | Inr future_income \<Rightarrow>
                        (case make_predictions expenditure_model expd 30 of
                           Inl e \<Rightarrow> Inl e
                         | Inr future_expenditure \<Rightarrow>
                             Inr (future_income, future_expenditure)))),
          df))"

section \<open>The generator of the split as state\<close>

text \<open>
  scikit-learn turns \<^verbatim>\<open>random_state\<close> into a generator with \<^verbatim>\<open>check_random_state\<close>:
  \<^verbatim>\<open>None\<close> is numpy's global generator, whose state every draw advances; an integer is a
  new generator seeded with it, and the global one is neither read nor written. A
  generator is given by the state that a seed produces and by the draw of a permutation
  of \<open>n\<close> indices, which returns the generator's next state as well.
\<close>

record 'g generator =
  seed_state :: "nat \<Rightarrow> 'g"
  draw_permutation :: "'g \<Rightarrow> nat \<Rightarrow> nat list \<times> 'g"

text \<open>
  \<^verbatim>\<open>train_test_split\<close> with the state of the global generator passed through: the sizes
  are checked before anything is drawn.
\<close>

definition train_test_split_st ::
  "'g generator \<Rightarrow> 'g \<Rightarrow> 'a list \<Rightarrow> 'b list \<Rightarrow> real \<Rightarrow> nat option
     \<Rightarrow> (error + ('a list \<times> 'a list \<times> 'b list \<times> 'b list)) \<times> 'g" where
  "train_test_split_st gen global X y test_size random_state =
     (let n_samples = length X;
          n_test = nat \<lceil>test_size * of_nat n_samples\<rceil>;
          n_train = n_samples - n_test
      in if n_train = 0 then (Inl ValueError, global)
         else
           let (permutation, global') =
                 (case random_state of
                    None \<Rightarrow> draw_permutation gen global n_samples
                  | Some seed \<Rightarrow>
                      (fst (draw_permutation gen (seed_state gen seed) n_samples), global));
               ind_test = take n_test permutation;
               ind_train = take n_train (drop n_test permutation)
           in (Inr (map (nth X) ind_train, map (nth X) ind_test,
                    map (nth y) ind_train, map (nth y) ind_test), global'))"

text \<open>\<^verbatim>\<open>train_model\<close> passes \<^verbatim>\<open>random_state=42\<close>.\<close>

definition train_model_st ::
  "'g generator \<Rightarrow> 'g \<Rightarrow> frame \<Rightarrow> (row \<Rightarrow> real) \<Rightarrow> (error + linreg) \<times> 'g" where
  "train_model_st gen global df target =
     (case those (map days_since_start df) of
        None \<Rightarrow> (Inl KeyError, global)
      | Some X \<Rightarrow>
          (case train_test_split_st gen global X (map target df) (1 / 5) (Some 42) of
             (Inl e, global') \<Rightarrow> (Inl e, global')
           | (Inr (X_train, X_test, y_train, y_test), global') \<Rightarrow>
               (Inr (fit X_train y_train), global')))"

text \<open>
  \<^verbatim>\<open>predict_future_transactions\<close> as a step on the program's state: what the call
  returns, the caller's frame after it, and the state of the global generator after it.
\<close>

definition predict_future_transactions_st ::
  "'g generator \<Rightarrow> 'g \<Rightarrow> frame \<Rightarrow> (error + forecast list \<times> forecast list) \<times> frame \<times> 'g" where
  "predict_future_transactions_st gen global df0 =
     (let df = prepare_data df0;
          inc = income_df df;
          expd = expenditure_df df
      in (case train_model_st gen global inc amount of
            (Inl e, g1) \<Rightarrow> (Inl e, df, g1)
          | (Inr income_model, g1) \<Rightarrow>
              (case train_model_st gen g1 expd amount of
                 (Inl e, g2) \<Rightarrow> (Inl e, df, g2)
               | (Inr expenditure_model, g2) \<Rightarrow>
                   (case make_predictions income_model inc 30 of
                      Inl e \<Rightarrow> (Inl e, df, g2)
                    | Inr future_income \<Rightarrow>
                        (case make_predictions expenditure_model expd 30 of
                           Inl e \<Rightarrow> (Inl e, df, g2)
                         | Inr future_expenditure \<Rightarrow>
                             (Inr (future_income, future_expenditure), df, g2))))))"

text \<open>The permutation that a generator draws right after it was seeded.\<close>

definition seeded_permutation :: "'g generator \<Rightarrow> nat \<Rightarrow> nat \<Rightarrow> nat list" where
  "seeded_permutation gen seed n = fst (draw_permutation gen (seed_state gen seed) n)"

section \<open>The rows of a projection, and sample data\<close>

text \<open>
  The row that \<^verbatim>\<open>make_predictions\<close> produces for the \<open>k\<close>-th projected date, from the
  first and the last date of the frame it was given.
\<close>

definition projected :: "linreg \<Rightarrow> int \<Rightarrow> int \<Rightarrow> nat \<Rightarrow> forecast" where
  "projected m first_date last_date k =
     \<lparr>f_date = last_date + 1 + int k,
      f_days_since_start = last_date + 1 + int k - first_date,
      prediction = coef m * real_of_int (last_date + 1 + int k - first_date) + intercept m\<rparr>"

text \<open>The indices of the training set, as \<^verbatim>\<open>train_test_split\<close> takes them.\<close>

definition train_indices :: "(nat \<Rightarrow> nat \<Rightarrow> nat list) \<Rightarrow> nat \<Rightarrow> nat list" where
  "train_indices rng n = take (n - (n + 4) div 5) (drop ((n + 4) div 5) (rng 42 n))"

text \<open>
  A generator to run the model on concrete ledgers: it returns the indices in descending
  order for every seed. The statements evaluated with it below are about dates, day
  indices, errors, and fits of points that lie on one line, none of which depends on the
  permutation.
\<close>

definition sample_rng :: "nat \<Rightarrow> nat \<Rightarrow> nat list" where
  "sample_rng seed n = rev [0..<n]"

text \<open>Expenses on days 0 and 5, income on days 1 and 2.\<close>

definition staggered_ledger :: frame where
  "staggered_ledger =
     [\<lparr>date = 0, category = ''rent'', amount = - 30, days_since_start = None\<rparr>,
      \<lparr>date = 1, category = ''pay'', amount = 50, days_since_start = None\<rparr>,
      \<lparr>date = 2, category = ''pay'', amount = 70, days_since_start = None\<rparr>,
      \<lparr>date = 5, category = ''food'', amount = - 10, days_since_start = None\<rparr>]"

text \<open>Expenses on days 0 and 1, then income on days 10, 11 and 12, on the line \<open>2 * day + 10\<close>.\<close>

definition late_income_ledger :: frame where
  "late_income_ledger =
     [\<lparr>date = 0, category = ''rent'', amount = - 30, days_since_start = None\<rparr>,
      \<lparr>date = 1, category = ''food'', amount = - 20, days_since_start = None\<rparr>,
      \<lparr>date = 10, category = ''pay'', amount = 30, days_since_start = None\<rparr>,
      \<lparr>date = 11, category = ''pay'', amount = 32, days_since_start = None\<rparr>,
      \<lparr>date = 12, category = ''pay'', amount = 34, days_since_start = None\<rparr>]"

text \<open>A single income record between two expenses.\<close>

definition one_income_ledger :: frame where
  "one_income_ledger =
     [\<lparr>date = 0, category = ''rent'', amount = - 30, days_since_start = None\<rparr>,
      \<lparr>date = 1, category = ''pay'', amount = 50, days_since_start = None\<rparr>,
      \<lparr>date = 2, category = ''food'', amount = - 10, days_since_start = None\<rparr>]"

text \<open>+50 on day 0, -30 on day 1, +70 on day 2, and a record of amount 0.\<close>

definition partition_ledger :: frame where
  "partition_ledger =
     [\<lparr>date = 0, category = ''pay'', amount = 50, days_since_start = None\<rparr>,
      \<lparr>date = 1, category = ''rent'', amount = - 30, days_since_start = None\<rparr>,
      \<lparr>date = 1, category = ''void'', amount = 0, days_since_start = None\<rparr>,
      \<lparr>date = 2, category = ''pay'', amount = 70, days_since_start = None\<rparr>]"


text \<open>
  A generator whose state is a counter: a seed sets the counter, and a draw rotates the
  indices by the counter and advances it.
\<close>

definition counter_generator :: "nat generator" where
  "counter_generator =
     \<lparr>seed_state = (\<lambda>seed. seed),
      draw_permutation = (\<lambda>g n. (rotate g [0..<n], Suc g))\<rparr>"

section \<open>Facts about the columns and the library calls\<close>

lemma fold_min_date: "fold (\<lambda>s m. min (date s) m) rs a = fold min (map date rs) a"
  by (simp add: fold_map comp_def)

lemma fold_max_date: "fold (\<lambda>s m. max (date s) m) rs a = fold max (map date rs) a"
  by (simp add: fold_map comp_def)

lemma date_min_eq: "df \<noteq> [] \<Longrightarrow> date_min df = Some (Min (date ` set df))"
proof (cases df)
  case Nil
  assume "df \<noteq> []"
  with Nil show ?thesis by simp
next
  case (Cons r rs)
  have "Min (set (date r # map date rs)) = fold min (map date rs) (date r)"
    by (rule Min.set_eq_fold)
  with Cons show ?thesis
    by (simp add: date_min_def fold_min_date)
qed

lemma date_max_eq: "df \<noteq> [] \<Longrightarrow> date_max df = Some (Max (date ` set df))"
proof (cases df)
  case Nil
  assume "df \<noteq> []"
  with Nil show ?thesis by simp
next
  case (Cons r rs)
  have "Max (set (date r # map date rs)) = fold max (map date rs) (date r)"
    by (rule Max.set_eq_fold)
  with Cons show ?thesis
    by (simp add: date_max_def fold_max_date)
qed

lemma date_min_Nil [simp]: "date_min [] = None"
  by (simp add: date_min_def)

lemma date_max_Nil [simp]: "date_max [] = None"
  by (simp add: date_max_def)

lemma prepare_data_eq:
  "prepare_data df = map (\<lambda>r. r\<lparr>days_since_start := Some (date r - Min (date ` set df))\<rparr>) df"
  by (cases "df = []") (simp_all add: prepare_data_def date_min_eq)

lemma those_map_Some: "those (map (\<lambda>r. Some (f r)) xs) = Some (map f xs)"
  by (induction xs) simp_all

lemma those_present:
  "(\<And>r. r \<in> set df \<Longrightarrow> days_since_start r = Some (f r)) \<Longrightarrow>
   those (map days_since_start df) = Some (map f df)"
proof -
  assume h: "\<And>r. r \<in> set df \<Longrightarrow> days_since_start r = Some (f r)"
  then have "map days_since_start df = map (\<lambda>r. Some (f r)) df"
    by simp
  then show ?thesis
    by (simp only: those_map_Some)
qed

lemma n_test_eq: "nat \<lceil>(1 / 5 :: real) * of_nat n\<rceil> = (n + 4) div 5"
proof -
  have "(1 / 5 :: real) * of_nat n = of_int (int n) / of_int 5"
    by simp
  then have "\<lceil>(1 / 5 :: real) * of_nat n\<rceil> = - (- int n div 5)"
    by (simp only: ceiling_divide_eq_div)
  also have "\<dots> = (int n + 4) div 5"
    by presburger
  finally have "nat \<lceil>(1 / 5 :: real) * of_nat n\<rceil> = nat ((int n + 4) div 5)"
    by (simp only:)
  also have "\<dots> = (n + 4) div 5"
    by linarith
  finally show ?thesis .
qed

lemma split_small:
  "length X \<le> 1 \<Longrightarrow> train_test_split rng X y (1 / 5) seed = Inl ValueError"
proof -
  assume "length X \<le> 1"
  then have "length X - (length X + 4) div 5 = 0"
    by linarith
  then show ?thesis
    unfolding train_test_split_def Let_def n_test_eq by simp
qed

lemma split_large:
  "2 \<le> length X \<Longrightarrow>
   train_test_split rng X y (1 / 5) seed =
     Inr (map (nth X) (take (length X - (length X + 4) div 5) (drop ((length X + 4) div 5) (rng seed (length X)))),
          map (nth X) (take ((length X + 4) div 5) (rng seed (length X))),
          map (nth y) (take (length X - (length X + 4) div 5) (drop ((length X + 4) div 5) (rng seed (length X)))),
          map (nth y) (take ((length X + 4) div 5) (rng seed (length X))))"
proof -
  assume "2 \<le> length X"
  then have "length X - (length X + 4) div 5 \<noteq> 0"
    by linarith
  then show ?thesis
    unfolding train_test_split_def Let_def n_test_eq by simp
qed


lemma those_length: "those xs = Some ys \<Longrightarrow> length ys = length xs"
  by (induction xs arbitrary: ys) (auto split: option.splits)

lemma train_model_small:
  assumes "those (map days_since_start df) = Some X" and "length df \<le> 1"
  shows "train_model rng df target = Inl ValueError"
proof -
  from assms(1) have "length X = length df"
    using those_length by fastforce
  with assms(2) have "train_test_split rng X (map target df) (1 / 5) 42 = Inl ValueError"
    by (simp add: split_small)
  with assms(1) show ?thesis
    by (simp add: train_model_def)
qed

lemma train_model_large:
  assumes "those (map days_since_start df) = Some X" and "2 \<le> length df"
  shows "train_model rng df target =
           Inr (fit (map (nth X) (train_indices rng (length df)))
                    (map (nth (map target df)) (train_indices rng (length df))))"
proof -
  from assms(1) have "length X = length df"
    using those_length by fastforce
  with assms(2) show ?thesis
    using assms(1) by (simp add: train_model_def split_large train_indices_def)
qed

lemma make_predictions_eq:
  assumes "df \<noteq> []"
  shows "make_predictions m df n =
           Inr (map (projected m (Min (date ` set df)) (Max (date ` set df))) [0..<n])"
  using assms
  by (simp add: make_predictions_def date_min_eq date_max_eq date_range_def predict_def
      Let_def zip_map_map zip_same_conv_map comp_def projected_def)

lemma prepared_days:
  "r \<in> set (prepare_data df) \<Longrightarrow>
   days_since_start r = Some (date r - Min (date ` set df))"
  by (auto simp: prepare_data_eq)

lemma income_days:
  "r \<in> set (income_df (prepare_data df)) \<Longrightarrow>
   days_since_start r = Some (date r - Min (date ` set df))"
  by (simp add: income_df_def prepared_days)

lemma expenditure_days:
  "r \<in> set (expenditure_df (prepare_data df)) \<Longrightarrow>
   days_since_start r = Some (date r - Min (date ` set df))"
  by (auto simp: expenditure_df_def prepared_days)

lemma income_those:
  "those (map days_since_start (income_df (prepare_data df))) =
   Some (map (\<lambda>r. date r - Min (date ` set df)) (income_df (prepare_data df)))"
  by (rule those_present) (rule income_days)

lemma expenditure_those:
  "those (map days_since_start (expenditure_df (prepare_data df))) =
   Some (map (\<lambda>r. date r - Min (date ` set df)) (expenditure_df (prepare_data df)))"
  by (rule those_present) (rule expenditure_days)

lemma predict_fails:
  assumes "length (income_df (prepare_data df)) \<le> 1 \<or> length (expenditure_df (prepare_data df)) \<le> 1"
  shows "fst (predict_future_transactions rng df) = Inl ValueError"
proof (cases "length (income_df (prepare_data df)) \<le> 1")
  case True
  then have "train_model rng (income_df (prepare_data df)) amount = Inl ValueError"
    by (rule train_model_small [OF income_those])
  then show ?thesis
    by (simp add: predict_future_transactions_def Let_def)
next
  case False
  with assms have e: "length (expenditure_df (prepare_data df)) \<le> 1"
    by simp
  from False have "2 \<le> length (income_df (prepare_data df))"
    by simp
  then obtain mi where "train_model rng (income_df (prepare_data df)) amount = Inr mi"
    using train_model_large [OF income_those] by blast
  moreover have "train_model rng (expenditure_df (prepare_data df)) amount = Inl ValueError"
    by (rule train_model_small [OF expenditure_those e])
  ultimately show ?thesis
    by (simp add: predict_future_transactions_def Let_def)
qed

lemma predict_returns:
  assumes "2 \<le> length (income_df (prepare_data df))"
    and "2 \<le> length (expenditure_df (prepare_data df))"
  shows "\<exists>mi me.
           train_model rng (income_df (prepare_data df)) amount = Inr mi \<and>
           train_model rng (expenditure_df (prepare_data df)) amount = Inr me \<and>
           fst (predict_future_transactions rng df) =
             Inr (map (projected mi (Min (date ` set (income_df (prepare_data df))))
                                    (Max (date ` set (income_df (prepare_data df))))) [0..<30],
                  map (projected me (Min (date ` set (expenditure_df (prepare_data df))))
                                    (Max (date ` set (expenditure_df (prepare_data df))))) [0..<30])"
proof -
  obtain mi where mi: "train_model rng (income_df (prepare_data df)) amount = Inr mi"
    using train_model_large [OF income_those assms(1)] by blast
  obtain me where me: "train_model rng (expenditure_df (prepare_data df)) amount = Inr me"
    using train_model_large [OF expenditure_those assms(2)] by blast
  from assms have ne: "income_df (prepare_data df) \<noteq> []" "expenditure_df (prepare_data df) \<noteq> []"
    by auto
  show ?thesis
    using mi me ne
    by (simp add: predict_future_transactions_def Let_def make_predictions_eq)
qed

lemma predict_frame: "snd (predict_future_transactions rng df) = prepare_data df"
  by (simp add: predict_future_transactions_def Let_def)

lemma prepared_dates: "map date (prepare_data df) = map date df"
  by (simp add: prepare_data_eq)

lemma prepared_categories: "map category (prepare_data df) = map category df"
  by (simp add: prepare_data_eq)

lemma prepared_amounts: "map amount (prepare_data df) = map amount df"
  by (simp add: prepare_data_eq)

lemma prepared_date_set: "date ` set (prepare_data df) = date ` set df"
  using prepared_dates [of df] by (metis set_map)

lemma prepare_data_idem: "prepare_data (prepare_data df) = prepare_data df"
proof -
  have "prepare_data (prepare_data df) =
          map (\<lambda>r. r\<lparr>days_since_start := Some (date r - Min (date ` set df))\<rparr>) (prepare_data df)"
    by (simp only: prepare_data_eq [of "prepare_data df"] prepared_date_set)
  also have "\<dots> = prepare_data df"
    by (simp add: prepare_data_eq)
  finally show ?thesis .
qed

lemma expenditure_date_subset: "date ` set (expenditure_df (prepare_data df)) \<subseteq> date ` set df"
  by (auto simp: expenditure_df_def prepare_data_eq)

lemma second_call:
  "predict_future_transactions rng (snd (predict_future_transactions rng df)) =
     predict_future_transactions rng df"
  by (simp add: predict_frame) (simp add: predict_future_transactions_def prepare_data_idem)

section \<open>Facts about the generator\<close>

lemma split_st_seeded:
  "train_test_split_st gen g X y t (Some s) = (train_test_split (seeded_permutation gen) X y t s, g)"
  by (simp add: train_test_split_st_def train_test_split_def seeded_permutation_def Let_def)

lemma train_model_st_eq:
  "train_model_st gen g df target = (train_model (seeded_permutation gen) df target, g)"
  by (simp add: train_model_st_def train_model_def split_st_seeded
      split: option.splits sum.splits prod.splits)

lemma predict_st_eq:
  "predict_future_transactions_st gen g df =
     (fst (predict_future_transactions (seeded_permutation gen) df),
      snd (predict_future_transactions (seeded_permutation gen) df), g)"
  by (simp add: predict_future_transactions_st_def predict_future_transactions_def
      train_model_st_eq Let_def split: sum.splits)

text \<open>
  Without a seed the split does depend on the state of the global generator: the same
  columns are split differently in two states of the counter.
\<close>

lemma unseeded_split_depends_on_state:
  "fst (train_test_split_st counter_generator 0 [10, 11, 12 :: int] [30, 32, 34 :: real] (1 / 5) None) \<noteq>
   fst (train_test_split_st counter_generator 1 [10, 11, 12 :: int] [30, 32, 34 :: real] (1 / 5) None)"
  by code_simp

section \<open>The claims\<close>

text \<open>
  Claim C1: the income forecast and the expenditure forecast both start on the day after
  the latest date of the whole input series. \<^verbatim>\<open>predict_future_transactions\<close> hands
  \<^verbatim>\<open>make_predictions\<close> the income rows, respectively the expenditure rows, and
  \<^verbatim>\<open>make_predictions\<close> takes \<^verbatim>\<open>df['date'].max()\<close> of what it is handed. On the ledger
  with income on days 1 and 2 and expenses on days 0 and 5 the latest date is day 5; the
  expenditure forecast covers days 6 to 35, the income forecast days 3 to 32.
\<close>

theorem forecast_start_dates_staggered: "date_max staggered_ledger = Some 5 \<and>
   map_sum id (map_prod (map f_date) (map f_date))
     (fst (predict_future_transactions sample_rng staggered_ledger)) = Inr ([3..32], [6..35])"
  by code_simp

text \<open>
  Claim C2: the day index at which the fitted line is evaluated for a projected date
  counts from the earliest date of the whole series, as the feature of the training rows
  does. \<^verbatim>\<open>make_predictions\<close> subtracts \<^verbatim>\<open>df['date'].min()\<close> of the rows it is handed.
  On the ledger whose income starts on day 10 (earliest date: day 0) the income rows are
  trained with the indices 10, 11 and 12, and the first projected date, day 13, is
  evaluated at index 3: the amounts lie on the line \<open>2 * index + 10\<close>, which is 36 on
  day 13, and the prediction for day 13 is 16.
\<close>

theorem projection_day_index_late_income: "date_min late_income_ledger = Some 0 \<and>
   map days_since_start (income_df (prepare_data late_income_ledger)) = [Some 10, Some 11, Some 12] \<and>
   map_sum id (map_prod (map f_date) (map f_date))
     (fst (predict_future_transactions sample_rng late_income_ledger)) = Inr ([13..42], [2..31]) \<and>
   map_sum id (map_prod (map f_days_since_start) (map f_days_since_start))
     (fst (predict_future_transactions sample_rng late_income_ledger)) = Inr ([3..32], [2..31]) \<and>
   map_sum id (map_prod (map prediction) (map f_days_since_start))
     (fst (predict_future_transactions sample_rng late_income_ledger)) =
       Inr (map (\<lambda>k. 16 + 2 * real k) [0..<30], [2..31])"
  by code_simp

text \<open>
  Claim C3, as the code has it: when the income rows are a single record,
  \<^verbatim>\<open>train_model\<close> on the income rows raises the library's \<^verbatim>\<open>ValueError\<close> (the split
  leaves no training row), and \<^verbatim>\<open>predict_future_transactions\<close> raises
  \<^verbatim>\<open>ValueError\<close> instead of returning: there is no income forecast and no expenditure
  forecast, whatever the expenditure records are.
\<close>

theorem single_income_record_fails:
  assumes "length (income_df (prepare_data df)) = 1"
  shows "train_model rng (income_df (prepare_data df)) amount = Inl ValueError \<and>
         fst (predict_future_transactions rng df) = Inl ValueError \<and>
         (\<forall>forecasts. fst (predict_future_transactions rng df) \<noteq> Inr forecasts)"
proof -
  from assms have "length (income_df (prepare_data df)) \<le> 1"
    by simp
  then have "train_model rng (income_df (prepare_data df)) amount = Inl ValueError"
    by (rule train_model_small [OF income_those])
  moreover from assms have "fst (predict_future_transactions rng df) = Inl ValueError"
    by (simp add: predict_fails)
  ultimately show ?thesis
    by simp
qed

theorem single_income_record_fails_witness:
  "length (income_df (prepare_data one_income_ledger)) = 1 \<and>
   train_model sample_rng (income_df (prepare_data one_income_ledger)) amount = Inl ValueError \<and>
   fst (predict_future_transactions sample_rng one_income_ledger) = Inl ValueError"
proof -
  have h: "length (income_df (prepare_data one_income_ledger)) = 1"
    by code_simp
  show ?thesis
    using single_income_record_fails [OF h, of sample_rng] h by simp
qed

text \<open>
  Claim C3 as stated asks for an error of the income forecast that leaves the
  expenditure forecast in place. On a ledger with one income record and two expenses,
  whose expenditure rows alone can be trained on, the whole call ends in \<^verbatim>\<open>ValueError\<close>.
\<close>

theorem single_income_record_counterexample: "length (income_df (prepare_data one_income_ledger)) = 1 \<and>
   length (expenditure_df (prepare_data one_income_ledger)) = 2 \<and>
   \<not> isl (train_model sample_rng (expenditure_df (prepare_data one_income_ledger)) amount) \<and>
   fst (predict_future_transactions sample_rng one_income_ledger) = Inl ValueError"
  by code_simp

text \<open>
  Claim C4, as the code has it: after the call the caller's frame is the one that
  \<^verbatim>\<open>prepare_data\<close> has written to. The records, their order, dates, categories and
  amounts are as before; the column \<^verbatim>\<open>days_since_start\<close> is added or overwritten, with
  the day count from the earliest date of the frame.
\<close>

theorem caller_frame_after_call: "snd (predict_future_transactions rng df) = prepare_data df \<and>
   length (snd (predict_future_transactions rng df)) = length df \<and>
   map date (snd (predict_future_transactions rng df)) = map date df \<and>
   map category (snd (predict_future_transactions rng df)) = map category df \<and>
   map amount (snd (predict_future_transactions rng df)) = map amount df \<and>
   map days_since_start (snd (predict_future_transactions rng df)) =
     map (\<lambda>r. Some (date r - Min (date ` set df))) df"
  by (simp add: predict_frame prepared_dates prepared_categories prepared_amounts)
     (simp add: prepare_data_eq)

theorem caller_frame_after_call_witness:
  "map amount (snd (predict_future_transactions sample_rng staggered_ledger)) = [- 30, 50, 70, - 10] \<and>
   map days_since_start (snd (predict_future_transactions sample_rng staggered_ledger)) =
     [Some 0, Some 1, Some 2, Some 5]"
proof -
  have m: "map (\<lambda>r. Some (date r - Min (date ` set staggered_ledger))) staggered_ledger =
             [Some 0, Some 1, Some 2, Some 5]"
    by code_simp
  have a: "map amount staggered_ledger = [- 30, 50, 70, - 10]"
    by (simp add: staggered_ledger_def)
  from caller_frame_after_call [of sample_rng staggered_ledger]
  have x: "map amount (snd (predict_future_transactions sample_rng staggered_ledger)) =
             map amount staggered_ledger"
    and y: "map days_since_start (snd (predict_future_transactions sample_rng staggered_ledger)) =
             map (\<lambda>r. Some (date r - Min (date ` set staggered_ledger))) staggered_ledger"
    by blast+
  show ?thesis
    by (simp only: x y m a)
qed

text \<open>
  Claim C4 as stated says that the call leaves the caller's data unchanged. A frame
  without the column \<^verbatim>\<open>days_since_start\<close> has it after the call.
\<close>

theorem caller_frame_changed: "snd (predict_future_transactions sample_rng staggered_ledger) \<noteq> staggered_ledger"
  by code_simp

text \<open>
  Claim C5: for a valid input, each of the two forecasts has exactly 30 points, on
  consecutive calendar dates. The call returns whenever the income rows and the
  expenditure rows are at least two records each, which every valid input has.
\<close>

theorem forecast_thirty_consecutive_dates:
  assumes "2 \<le> length (income_df (prepare_data df))"
    and "2 \<le> length (expenditure_df (prepare_data df))"
  shows "\<exists>fi fe. fst (predict_future_transactions rng df) = Inr (fi, fe) \<and>
           length fi = 30 \<and> length fe = 30 \<and>
           (\<forall>k<29. f_date (fi ! Suc k) = f_date (fi ! k) + 1) \<and>
           (\<forall>k<29. f_date (fe ! Suc k) = f_date (fe ! k) + 1)"
proof -
  from predict_returns [OF assms, of rng] obtain mi me where
    "fst (predict_future_transactions rng df) =
       Inr (map (projected mi (Min (date ` set (income_df (prepare_data df))))
                              (Max (date ` set (income_df (prepare_data df))))) [0..<30],
            map (projected me (Min (date ` set (expenditure_df (prepare_data df))))
                              (Max (date ` set (expenditure_df (prepare_data df))))) [0..<30])"
    by blast
  then show ?thesis
    by (simp add: projected_def)
qed

theorem forecast_thirty_consecutive_dates_witness:
  "2 \<le> length (income_df (prepare_data staggered_ledger)) \<and>
   2 \<le> length (expenditure_df (prepare_data staggered_ledger)) \<and>
   (\<exists>fi fe. fst (predict_future_transactions sample_rng staggered_ledger) = Inr (fi, fe) \<and>
           length fi = 30 \<and> length fe = 30 \<and>
           (\<forall>k<29. f_date (fi ! Suc k) = f_date (fi ! k) + 1) \<and>
           (\<forall>k<29. f_date (fe ! Suc k) = f_date (fe ! k) + 1))"
proof -
  have h1: "2 \<le> length (income_df (prepare_data staggered_ledger))"
    by code_simp
  have h2: "2 \<le> length (expenditure_df (prepare_data staggered_ledger))"
    by code_simp
  show ?thesis
    using forecast_thirty_consecutive_dates [OF h1 h2, of sample_rng] h1 h2 by blast
qed

text \<open>
  Claim C6: the income rows are the records with a positive amount, unchanged and in
  order; the expenditure rows are the records with a negative amount, with the amount
  replaced by its absolute value; a record of amount 0 is in neither, so the two parts
  and the records of amount 0 add up to the input.
\<close>

theorem partitioning_by_sign:
  "map (\<lambda>r. (date r, category r, amount r)) (income_df (prepare_data df)) =
     map (\<lambda>r. (date r, category r, amount r)) (filter (\<lambda>r. amount r > 0) df) \<and>
   map (\<lambda>r. (date r, category r, amount r)) (expenditure_df (prepare_data df)) =
     map (\<lambda>r. (date r, category r, \<bar>amount r\<bar>)) (filter (\<lambda>r. amount r < 0) df) \<and>
   (\<forall>r \<in> set (income_df (prepare_data df)) \<union> set (expenditure_df (prepare_data df)). amount r > 0) \<and>
   length (income_df (prepare_data df)) + length (expenditure_df (prepare_data df)) +
     length (filter (\<lambda>r. amount r = 0) df) = length df"
proof (intro conjI)
  show "map (\<lambda>r. (date r, category r, amount r)) (income_df (prepare_data df)) =
     map (\<lambda>r. (date r, category r, amount r)) (filter (\<lambda>r. amount r > 0) df)"
    by (simp add: income_df_def prepare_data_eq filter_map comp_def)
  show "map (\<lambda>r. (date r, category r, amount r)) (expenditure_df (prepare_data df)) =
     map (\<lambda>r. (date r, category r, \<bar>amount r\<bar>)) (filter (\<lambda>r. amount r < 0) df)"
    by (simp add: expenditure_df_def prepare_data_eq filter_map comp_def)
  show "\<forall>r \<in> set (income_df (prepare_data df)) \<union> set (expenditure_df (prepare_data df)). amount r > 0"
    by (auto simp: income_df_def expenditure_df_def)
  show "length (income_df (prepare_data df)) + length (expenditure_df (prepare_data df)) +
     length (filter (\<lambda>r. amount r = 0) df) = length df"
    by (simp add: income_df_def expenditure_df_def prepare_data_eq filter_map comp_def)
       (induction df; simp)
qed

theorem partitioning_by_sign_witness:
  "map (\<lambda>r. (date r, category r, amount r)) (income_df (prepare_data partition_ledger)) =
     [(0, ''pay'', 50), (2, ''pay'', 70)] \<and>
   map (\<lambda>r. (date r, category r, amount r)) (expenditure_df (prepare_data partition_ledger)) =
     [(1, ''rent'', 30)] \<and>
   list_all (\<lambda>r. amount r > 0)
     (income_df (prepare_data partition_ledger) @ expenditure_df (prepare_data partition_ledger)) \<and>
   length (income_df (prepare_data partition_ledger)) +
     length (expenditure_df (prepare_data partition_ledger)) + 1 = length partition_ledger"
  using partitioning_by_sign [of partition_ledger]
  by (simp add: partition_ledger_def list_all_iff ball_Un)

text \<open>
  Claim C7: the feature \<^verbatim>\<open>days_since_start\<close> of every record is the day count from the
  earliest date of the whole series, also in the income rows and in the expenditure
  rows; when all income is dated after the earliest expense, every income row has a
  positive day index.
\<close>

theorem days_since_start_global_epoch:
  "map date (prepare_data df) = map date df \<and>
   map days_since_start (prepare_data df) = map (\<lambda>r. Some (date r - Min (date ` set df))) df \<and>
   (\<forall>r \<in> set (income_df (prepare_data df)).
      days_since_start r = Some (date r - Min (date ` set df))) \<and>
   (\<forall>r \<in> set (expenditure_df (prepare_data df)).
      days_since_start r = Some (date r - Min (date ` set df))) \<and>
   (expenditure_df (prepare_data df) \<noteq> [] \<and>
    (\<forall>r \<in> set (income_df (prepare_data df)).
       Min (date ` set (expenditure_df (prepare_data df))) < date r) \<longrightarrow>
    (\<forall>r \<in> set (income_df (prepare_data df)).
       \<exists>x. days_since_start r = Some x \<and> 0 < x))"
proof (intro conjI impI ballI)
  show "map date (prepare_data df) = map date df"
    by (rule prepared_dates)
  show "map days_since_start (prepare_data df) = map (\<lambda>r. Some (date r - Min (date ` set df))) df"
    by (simp add: prepare_data_eq)
next
  fix r assume "r \<in> set (income_df (prepare_data df))"
  then show "days_since_start r = Some (date r - Min (date ` set df))"
    by (rule income_days)
next
  fix r assume "r \<in> set (expenditure_df (prepare_data df))"
  then show "days_since_start r = Some (date r - Min (date ` set df))"
    by (rule expenditure_days)
next
  fix r
  assume h: "expenditure_df (prepare_data df) \<noteq> [] \<and>
    (\<forall>r \<in> set (income_df (prepare_data df)).
       Min (date ` set (expenditure_df (prepare_data df))) < date r)"
    and r: "r \<in> set (income_df (prepare_data df))"
  from h have ne: "date ` set (expenditure_df (prepare_data df)) \<noteq> {}"
    by simp
  have "Min (date ` set df) \<le> Min (date ` set (expenditure_df (prepare_data df)))"
    by (rule Min_antimono [OF expenditure_date_subset ne]) simp
  moreover from h r have "Min (date ` set (expenditure_df (prepare_data df))) < date r"
    by blast
  ultimately have "0 < date r - Min (date ` set df)"
    by linarith
  with income_days [OF r] show "\<exists>x. days_since_start r = Some x \<and> 0 < x"
    by simp
qed

theorem days_since_start_global_epoch_witness:
  "expenditure_df (prepare_data staggered_ledger) \<noteq> [] \<and>
   list_all (\<lambda>r. Min (date ` set (expenditure_df (prepare_data staggered_ledger))) < date r)
     (income_df (prepare_data staggered_ledger)) \<and>
   map days_since_start (prepare_data staggered_ledger) = [Some 0, Some 1, Some 2, Some 5] \<and>
   list_all (\<lambda>r. \<exists>x. days_since_start r = Some x \<and> 0 < x)
     (income_df (prepare_data staggered_ledger))"
proof -
  have h: "expenditure_df (prepare_data staggered_ledger) \<noteq> [] \<and>
   (\<forall>r \<in> set (income_df (prepare_data staggered_ledger)).
       Min (date ` set (expenditure_df (prepare_data staggered_ledger))) < date r)"
    by code_simp
  have m: "map (\<lambda>r. Some (date r - Min (date ` set staggered_ledger))) staggered_ledger =
             [Some 0, Some 1, Some 2, Some 5]"
    by code_simp
  from days_since_start_global_epoch [of staggered_ledger]
  have a: "map days_since_start (prepare_data staggered_ledger) =
             map (\<lambda>r. Some (date r - Min (date ` set staggered_ledger))) staggered_ledger"
    and b: "expenditure_df (prepare_data staggered_ledger) \<noteq> [] \<and>
      (\<forall>r \<in> set (income_df (prepare_data staggered_ledger)).
         Min (date ` set (expenditure_df (prepare_data staggered_ledger))) < date r) \<longrightarrow>
      (\<forall>r \<in> set (income_df (prepare_data staggered_ledger)).
         \<exists>x. days_since_start r = Some x \<and> 0 < x)"
    by blast+
  from a m have "map days_since_start (prepare_data staggered_ledger) = [Some 0, Some 1, Some 2, Some 5]"
    by (simp only:)
  with b h show ?thesis
    unfolding list_all_iff by blast
qed


text \<open>
  Claim C9: two runs on the same data give the same result, because the split is seeded
  with 42. The split with \<^verbatim>\<open>random_state=42\<close>, the model that \<^verbatim>\<open>train_model\<close> fits and the
  result of \<^verbatim>\<open>predict_future_transactions\<close> are the same in any two states of the global
  generator; the call leaves the global generator in the state it found; and a second
  call, on the frame and in the generator state that the first call left, returns the
  same result and leaves the same frame.
\<close>

theorem two_runs_identical:
  "fst (train_test_split_st gen g1 X y (1 / 5) (Some 42)) =
     fst (train_test_split_st gen g2 X y (1 / 5) (Some 42)) \<and>
   fst (train_model_st gen g1 df amount) = fst (train_model_st gen g2 df amount) \<and>
   fst (predict_future_transactions_st gen g1 df) = fst (predict_future_transactions_st gen g2 df) \<and>
   snd (snd (predict_future_transactions_st gen g1 df)) = g1 \<and>
   fst (predict_future_transactions_st gen (snd (snd (predict_future_transactions_st gen g1 df)))
          (fst (snd (predict_future_transactions_st gen g1 df)))) =
     fst (predict_future_transactions_st gen g1 df) \<and>
   fst (snd (predict_future_transactions_st gen (snd (snd (predict_future_transactions_st gen g1 df)))
          (fst (snd (predict_future_transactions_st gen g1 df))))) =
     fst (snd (predict_future_transactions_st gen g1 df))"
  by (simp add: split_st_seeded train_model_st_eq predict_st_eq second_call)

theorem two_runs_identical_witness:
  "fst (train_test_split_st counter_generator 0 [10, 11, 12 :: int] [30, 32, 34 :: real] (1 / 5) (Some 42)) =
     fst (train_test_split_st counter_generator 7 [10, 11, 12 :: int] [30, 32, 34 :: real] (1 / 5) (Some 42)) \<and>
   fst (predict_future_transactions_st counter_generator 0 late_income_ledger) =
     fst (predict_future_transactions_st counter_generator 7 late_income_ledger) \<and>
   snd (snd (predict_future_transactions_st counter_generator 0 late_income_ledger)) = 0"
  using two_runs_identical
    [of counter_generator 0 "[10, 11, 12 :: int]" "[30, 32, 34 :: real]" 7 late_income_ledger]
  by blast

end
